theory Spec2Isabelle
  imports Main "HOL-Library.Char_ord" "HOL-Library.List_Lexorder" "HOL-Library.Multiset"
begin

unbundle bit_operations_syntax

section \<open>SHA-256 (crypto.createHash('sha256').update(s).digest('hex'))\<close>

text \<open>
  Every digest in the ledger is Node's \<^verbatim>\<open>crypto.createHash('sha256').update(s).digest('hex')\<close>.
  The function is embedded as FIPS 180-4 states it, on 32-bit words written as naturals
  with the reduction modulo \<open>2 ^ 32\<close> spelled out. A string is the list of its UTF-8 bytes.
\<close>

definition add32 :: "nat \<Rightarrow> nat \<Rightarrow> nat" where
  "add32 x y = (x + y) mod 4294967296"

definition rotr :: "nat \<Rightarrow> nat \<Rightarrow> nat" where
  "rotr n x = x div 2 ^ n + (x mod 2 ^ n) * 2 ^ (32 - n)"

definition shr :: "nat \<Rightarrow> nat \<Rightarrow> nat" where
  "shr n x = x div 2 ^ n"

definition not32 :: "nat \<Rightarrow> nat" where
  "not32 x = 4294967295 - x"

definition Ch :: "nat \<Rightarrow> nat \<Rightarrow> nat \<Rightarrow> nat" where
  "Ch x y z = (x AND y) XOR (not32 x AND z)"

definition Maj :: "nat \<Rightarrow> nat \<Rightarrow> nat \<Rightarrow> nat" where
  "Maj x y z = (x AND y) XOR (x AND z) XOR (y AND z)"

definition Sigma0 :: "nat \<Rightarrow> nat" where
  "Sigma0 x = rotr 2 x XOR rotr 13 x XOR rotr 22 x"

definition Sigma1 :: "nat \<Rightarrow> nat" where
  "Sigma1 x = rotr 6 x XOR rotr 11 x XOR rotr 25 x"

definition sigma0 :: "nat \<Rightarrow> nat" where
  "sigma0 x = rotr 7 x XOR rotr 18 x XOR shr 3 x"

definition sigma1 :: "nat \<Rightarrow> nat" where
  "sigma1 x = rotr 17 x XOR rotr 19 x XOR shr 10 x"

definition K256 :: "nat list" where
  "K256 =
    0x428A2F98 # 0x71374491 # 0xB5C0FBCF # 0xE9B5DBA5 # 0x3956C25B # 0x59F111F1 # 0x923F82A4 # 0xAB1C5ED5 #
    0xD807AA98 # 0x12835B01 # 0x243185BE # 0x550C7DC3 # 0x72BE5D74 # 0x80DEB1FE # 0x9BDC06A7 # 0xC19BF174 #
    0xE49B69C1 # 0xEFBE4786 # 0x0FC19DC6 # 0x240CA1CC # 0x2DE92C6F # 0x4A7484AA # 0x5CB0A9DC # 0x76F988DA #
    0x983E5152 # 0xA831C66D # 0xB00327C8 # 0xBF597FC7 # 0xC6E00BF3 # 0xD5A79147 # 0x06CA6351 # 0x14292967 #
    0x27B70A85 # 0x2E1B2138 # 0x4D2C6DFC # 0x53380D13 # 0x650A7354 # 0x766A0ABB # 0x81C2C92E # 0x92722C85 #
    0xA2BFE8A1 # 0xA81A664B # 0xC24B8B70 # 0xC76C51A3 # 0xD192E819 # 0xD6990624 # 0xF40E3585 # 0x106AA070 #
    0x19A4C116 # 0x1E376C08 # 0x2748774C # 0x34B0BCB5 # 0x391C0CB3 # 0x4ED8AA4A # 0x5B9CCA4F # 0x682E6FF3 #
    0x748F82EE # 0x78A5636F # 0x84C87814 # 0x8CC70208 # 0x90BEFFFA # 0xA4506CEB # 0xBEF9A3F7 # 0xC67178F2 # []"

definition H0 :: "nat list" where
  "H0 = 0x6A09E667 # 0xBB67AE85 # 0x3C6EF372 # 0xA54FF53A # 0x510E527F # 0x9B05688C # 0x1F83D9AB # 0x5BE0CD19 # []"

text \<open>One round: working variables a..h as a list of eight words, W the 16-word window
  of the message schedule whose head is W_t.\<close>

fun round256 :: "nat \<Rightarrow> nat \<Rightarrow> nat list \<Rightarrow> nat list" where
  "round256 k w [a, b, c, d, e, f, g, h] =
     (let t1 = add32 (add32 (add32 (add32 h (Sigma1 e)) (Ch e f g)) k) w;
          t2 = add32 (Sigma0 a) (Maj a b c)
      in [add32 t1 t2, a, b, c, add32 d t1, e, f, g])"
| "round256 k w v = v"

definition next_w :: "nat list \<Rightarrow> nat" where
  "next_w w = add32 (add32 (add32 (sigma1 (w ! 14)) (w ! 9)) (sigma0 (w ! 1))) (w ! 0)"

fun rounds256 :: "nat list \<Rightarrow> nat list \<Rightarrow> nat list \<Rightarrow> nat list" where
  "rounds256 [] w v = v"
| "rounds256 (k # ks) w v = rounds256 ks (tl w @ [next_w w]) (round256 k (hd w) v)"

definition compress :: "nat list \<Rightarrow> nat list \<Rightarrow> nat list" where
  "compress h m = map2 add32 h (rounds256 K256 m h)"

definition be32 :: "nat list \<Rightarrow> nat" where
  "be32 bs = foldl (\<lambda>acc b. acc * 256 + b) 0 bs"

fun words_of :: "nat list \<Rightarrow> nat list" where
  "words_of (a # b # c # d # bs) = be32 [a, b, c, d] # words_of bs"
| "words_of bs = []"

fun blocks_of :: "nat list \<Rightarrow> nat list list" where
  "blocks_of [] = []"
| "blocks_of ws = take 16 ws # blocks_of (drop 16 ws)"

definition be_bytes8 :: "nat \<Rightarrow> nat list" where
  "be_bytes8 x = map (\<lambda>i. (x div 256 ^ i) mod 256) [7, 6, 5, 4, 3, 2, 1, 0]"

definition pad :: "nat list \<Rightarrow> nat list" where
  "pad bs = bs @ [128] @ replicate ((119 - length bs mod 64) mod 64) 0 @ be_bytes8 (8 * length bs)"

definition hexdigit :: "nat \<Rightarrow> char" where
  "hexdigit n = (''0123456789abcdef'') ! (n mod 16)"

definition hex32 :: "nat \<Rightarrow> string" where
  "hex32 x = map (\<lambda>i. hexdigit (x div 16 ^ i)) [7, 6, 5, 4, 3, 2, 1, 0]"

definition sha256 :: "string \<Rightarrow> string" where
  "sha256 s = concat (map hex32 (foldl compress H0 (blocks_of (words_of (pad (map of_char s))))))"


section \<open>JavaScript string conversions used by the hash inputs\<close>

text \<open>
  \<open>undefined + str\<close> concatenates the text \<open>undefined\<close>; a number is written in decimal.
  The second holds for the integers a \<open>blockIndex\<close> or a \<open>nonce\<close> can be (below \<open>10 ^ 21\<close>).
\<close>

definition js_str :: "string option \<Rightarrow> string" where
  "js_str v = (case v of None \<Rightarrow> ''undefined'' | Some s \<Rightarrow> s)"

definition digit :: "nat \<Rightarrow> char" where
  "digit n = (''0123456789'') ! (n mod 10)"

fun nat_str :: "nat \<Rightarrow> string" where
  "nat_str n = (if n < 10 then [digit n] else nat_str (n div 10) @ [digit n])"

declare nat_str.simps [simp del]

definition num_str :: "int \<Rightarrow> string" where
  "num_str i = (if i < 0 then ''-'' @ nat_str (nat (- i)) else nat_str (nat i))"

definition js_num :: "int option \<Rightarrow> string" where
  "js_num v = (case v of None \<Rightarrow> ''undefined'' | Some i \<Rightarrow> num_str i)"

text \<open>
  \<open>JSON.stringify\<close> of a string: quotes, the backslash and the control characters are
  escaped, everything else is copied.
\<close>

definition json_escape :: "char \<Rightarrow> string" where
  "json_escape c =
     (if c = CHR 0x22 then [CHR 0x5C, CHR 0x22]
      else if c = CHR 0x5C then [CHR 0x5C, CHR 0x5C]
      else if c = CHR 0x08 then [CHR 0x5C, CHR ''b'']
      else if c = CHR 0x0C then [CHR 0x5C, CHR ''f'']
      else if c = CHR 0x0A then [CHR 0x5C, CHR ''n'']
      else if c = CHR 0x0D then [CHR 0x5C, CHR ''r'']
      else if c = CHR 0x09 then [CHR 0x5C, CHR ''t'']
      else if (of_char c :: nat) < 32
        then [CHR 0x5C, CHR ''u'', CHR ''0'', CHR ''0'', hexdigit (of_char c div 16), hexdigit (of_char c)]
      else [c])"

definition json_string :: "string \<Rightarrow> string" where
  "json_string s = [CHR 0x22] @ concat (map json_escape s) @ [CHR 0x22]"

fun join_comma :: "string list \<Rightarrow> string" where
  "join_comma [] = []"
| "join_comma [x] = x"
| "join_comma (x # y # ys) = x @ '','' @ join_comma (y # ys)"

section \<open>Data model\<close>

text \<open>
  A transaction object as it travels inside a block. The objects \<open>getTransactionsForBlock\<close>
  builds from mempool rows carry every field; the objects \<open>getLastBlock\<close> and
  \<open>getAllBlocks\<close> parse from the \<open>transactions\<close> column carry \<open>transactionId\<close> and
  \<open>rowHash\<close> only, so every other field may be \<open>undefined\<close> (\<open>None\<close>). The four
  measurements are only ever copied.
\<close>

record transaction =
  transactionId :: string
  rowHash :: string
  projId :: "string option"
  timestamp :: "string option"
  submitterId :: "string option"
  stationID :: "string option"
  SO2 :: "int option"
  NO2 :: "int option"
  PM10 :: "int option"
  PM2_5 :: "int option"
  rawDataJson :: "string option"

section \<open>routes/blocks.js: calculateMerkleRoot\<close>

text \<open>The \<open>for\<close> loop of one level: adjacent pairs, left to right.\<close>

fun pair_level :: "string list \<Rightarrow> string list" where
  "pair_level (a # b # rest) = sha256 (a @ b) # pair_level rest"
| "pair_level [a] = [sha256 (a @ ''undefined'')]"
| "pair_level [] = []"

text \<open>The \<open>while (hashes.length > 1)\<close> loop.\<close>

function merkle_loop :: "string list \<Rightarrow> string list" where
  "merkle_loop hashes =
     (if length hashes > 1
      then merkle_loop (pair_level (if length hashes mod 2 \<noteq> 0 then hashes @ [last hashes] else hashes))
      else hashes)"
  by pat_completeness auto

termination merkle_loop
proof (relation "measure length")
  show "wf (measure length)"
    by simp
next
  fix hashes :: "string list"
  assume more: "1 < length hashes"
  have length_pair_level: "length (pair_level xs) = (length xs + 1) div 2" for xs
    by (induction xs rule: pair_level.induct) simp_all
  from more have "length hashes mod 2 \<noteq> 0 \<longrightarrow> (length hashes + 2) div 2 < length hashes"
    and "(length hashes + 1) div 2 < length hashes"
    by presburger+
  then show "(pair_level (if length hashes mod 2 \<noteq> 0 then hashes @ [last hashes] else hashes), hashes)
      \<in> measure length"
    by (auto simp: length_pair_level)
qed

declare merkle_loop.simps [simp del]

text \<open>\<open>hashes[0]\<close> of an empty array is \<open>undefined\<close>, which is \<open>None\<close> here.\<close>

definition calculateMerkleRoot :: "transaction list \<Rightarrow> string option" where
  "calculateMerkleRoot txs =
     (if length txs = 0 then Some (sha256 ''empty_merkle_root_placeholder'')
      else case merkle_loop (map rowHash txs) of [] \<Rightarrow> None | h # _ \<Rightarrow> Some h)"

section \<open>Blocks, table rows and the node state\<close>

text \<open>
  A block object as a request body or a query result: every property may be
  \<open>undefined\<close>. \<open>block_timestamp\<close> is the block's \<open>timestamp\<close> property.
\<close>

record block =
  blockIndex :: "int option"
  block_timestamp :: "string option"
  transactions :: "transaction list option"
  merkleRoot :: "string option"
  previousBlockHash :: "string option"
  nonce :: "int option"
  hash :: "string option"

text \<open>
  Table \<open>bchain\<close>: every column is \<open>NOT NULL\<close>, \<open>blockIndex\<close> is \<open>UNIQUE\<close>. The
  \<open>transactions\<close> column holds the JSON text of the lightweight list; the row keeps the
  list that \<open>JSON.parse\<close> gives back.
\<close>

record bchain_row =
  row_id :: nat
  row_blockIndex :: int
  row_timestamp :: string
  row_transactions :: "transaction list"
  row_nonce :: int
  row_hash :: string
  row_previousBlockHash :: string
  row_merkleRoot :: string

text \<open>
  Tables \<open>mempool_transactions\<close> and \<open>confirmed_transactions\<close>. \<open>transaction_id\<close> is
  \<open>UNIQUE NOT NULL\<close>; \<open>projId\<close>, \<open>timestamp\<close>, \<open>submitter_id\<close>, \<open>raw_data_json\<close> and
  \<open>rowHash\<close> are \<open>NOT NULL\<close>. The position in the list stands for the autoincrement
  \<open>internal_id\<close>, which no code reads.
\<close>

record mempool_row =
  transaction_id :: string
  col_projId :: string
  col_timestamp :: string
  submitter_id :: string
  station_id :: "string option"
  so2 :: "int option"
  no2 :: "int option"
  pm10 :: "int option"
  pm2_5 :: "int option"
  raw_data_json :: string
  col_rowHash :: string

record confirmed_row = mempool_row +
  block_id :: nat

record node =
  theProj :: "string option"
  bchain :: "bchain_row list"
  mempool_transactions :: "mempool_row list"
  confirmed_transactions :: "confirmed_row list"

datatype error =
    SQLITE_CONSTRAINT_NOTNULL string
  | SQLITE_CONSTRAINT_UNIQUE string
  | SQLITE_CONSTRAINT_FOREIGNKEY
  | TypeError
  | ProjectIdNotSet
  | RequestFailed

section \<open>db.js\<close>

subsection \<open>initDb: the genesis block\<close>

definition genesisBlock :: "string \<Rightarrow> bchain_row" where
  "genesisBlock now =
     \<lparr>row_id = 1, row_blockIndex = 0, row_timestamp = now, row_transactions = [],
      row_nonce = 0, row_hash = sha256 ''regulator_genesis_block_v1'',
      row_previousBlockHash = ''0'',
      row_merkleRoot = sha256 ''genesis_merkle_root_v1''\<rparr>"


subsection \<open>createTransaction\<close>

text \<open>The body of a transaction request: any property may be missing.\<close>

record submission =
  in_transactionId :: "string option"
  in_timestamp :: "string option"
  in_rowHash :: "string option"
  in_rawDataJson :: "string option"
  in_projId :: "string option"
  in_submitterId :: "string option"
  in_stationID :: "string option"
  in_SO2 :: "int option"
  in_NO2 :: "int option"
  in_PM10 :: "int option"
  in_PM2_5 :: "int option"

text \<open>What the node cannot compute from its state: \<open>uuidv4()\<close> without its dashes and the clock.\<close>

record env =
  uuid :: string
  now :: string

text \<open>\<open>!v\<close> on a string property: missing or empty.\<close>

definition falsy :: "string option \<Rightarrow> bool" where
  "falsy v = (case v of None \<Rightarrow> True | Some x \<Rightarrow> x = [])"

text \<open>\<open>v || d\<close>.\<close>

definition or_else :: "string option \<Rightarrow> string \<Rightarrow> string" where
  "or_else v d = (case v of None \<Rightarrow> d | Some x \<Rightarrow> if x = [] then d else x)"

text \<open>
  \<open>JSON.stringify({submitterId, stationID, SO2, NO2, PM10, PM2_5})\<close>: a property whose
  value is \<open>undefined\<close> is left out.
\<close>

definition json_member :: "string \<Rightarrow> string option \<Rightarrow> string list" where
  \<open>json_member k v = (case v of None \<Rightarrow> [] | Some x \<Rightarrow> [json_string k @ '':'' @ x])\<close>

definition stringify_raw :: "submission \<Rightarrow> string" where
  "stringify_raw p =
     ''{'' @ join_comma
       (json_member ''submitterId'' (map_option json_string (in_submitterId p)) @
        json_member ''stationID'' (map_option json_string (in_stationID p)) @
        json_member ''SO2'' (map_option num_str (in_SO2 p)) @
        json_member ''NO2'' (map_option num_str (in_NO2 p)) @
        json_member ''PM10'' (map_option num_str (in_PM10 p)) @
        json_member ''PM2_5'' (map_option num_str (in_PM2_5 p))) @ ''}''"

definition createTransaction :: "env \<Rightarrow> submission \<Rightarrow> node \<Rightarrow> (error + transaction) \<times> node" where
  "createTransaction e p s =
     (if theProj s = None \<and> in_projId p = None then (Inl ProjectIdNotSet, s)
      else
        let finalTransactionId = or_else (in_transactionId p) (uuid e);
            finalTimestamp = or_else (in_timestamp p) (now e);
            finalProjId = (case in_projId p of Some x \<Rightarrow> x | None \<Rightarrow> js_str (theProj s));
            rawDataForHash = or_else (in_rawDataJson p) (stringify_raw p);
            finalRowHash = or_else (in_rowHash p)
                             (sha256 (finalTransactionId @ finalTimestamp @ rawDataForHash))
        in case in_submitterId p of
             None \<Rightarrow> (Inl (SQLITE_CONSTRAINT_NOTNULL ''mempool_transactions.submitter_id''), s)
           | Some submitter \<Rightarrow>
               if finalTransactionId \<in> set (map transaction_id (mempool_transactions s))
               then (Inl (SQLITE_CONSTRAINT_UNIQUE ''mempool_transactions.transaction_id''), s)
               else
                 (Inr \<lparr>transactionId = finalTransactionId, rowHash = finalRowHash,
                       projId = Some finalProjId, timestamp = Some finalTimestamp,
                       submitterId = Some submitter, stationID = in_stationID p,
                       SO2 = in_SO2 p, NO2 = in_NO2 p, PM10 = in_PM10 p, PM2_5 = in_PM2_5 p,
                       rawDataJson = Some rawDataForHash\<rparr>,
                  s\<lparr>mempool_transactions := mempool_transactions s @
                      [\<lparr>transaction_id = finalTransactionId, col_projId = finalProjId,
                        col_timestamp = finalTimestamp, submitter_id = submitter,
                        station_id = in_stationID p, so2 = in_SO2 p, no2 = in_NO2 p,
                        pm10 = in_PM10 p, pm2_5 = in_PM2_5 p,
                        raw_data_json = rawDataForHash, col_rowHash = finalRowHash\<rparr>]\<rparr>))"

subsection \<open>Mempool queries\<close>

definition getMempoolCount :: "node \<Rightarrow> int" where
  "getMempoolCount s = int (length (mempool_transactions s))"

definition transaction_of_row :: "mempool_row \<Rightarrow> transaction" where
  "transaction_of_row r =
     \<lparr>transactionId = transaction_id r, rowHash = col_rowHash r, projId = Some (col_projId r),
      timestamp = Some (col_timestamp r), submitterId = Some (submitter_id r),
      stationID = station_id r, SO2 = so2 r, NO2 = no2 r, PM10 = pm10 r, PM2_5 = pm2_5 r,
      rawDataJson = Some (raw_data_json r)\<rparr>"

text \<open>
  \<open>SELECT * FROM mempool_transactions ORDER BY timestamp ASC LIMIT ?\<close>. The column is
  \<open>TEXT\<close>, compared byte by byte; rows with equal timestamps stay in insertion order.
\<close>

definition getTransactionsForBlock :: "nat \<Rightarrow> node \<Rightarrow> transaction list" where
  "getTransactionsForBlock limit s =
     map transaction_of_row (take limit (sort_key col_timestamp (mempool_transactions s)))"

definition removeTransactionsFromMempool :: "string list \<Rightarrow> node \<Rightarrow> node" where
  "removeTransactionsFromMempool transactionIds s =
     s\<lparr>mempool_transactions :=
         filter (\<lambda>r. transaction_id r \<notin> set transactionIds) (mempool_transactions s)\<rparr>"

subsection \<open>addBlockToBlockchain\<close>

definition lightweight :: "transaction \<Rightarrow> transaction" where
  "lightweight tx =
     \<lparr>transactionId = transactionId tx, rowHash = rowHash tx, projId = None, timestamp = None,
      submitterId = None, stationID = None, SO2 = None, NO2 = None, PM10 = None, PM2_5 = None,
      rawDataJson = None\<rparr>"

text \<open>
  \<open>INSERT INTO bchain\<close>: an \<open>undefined\<close> parameter is bound as \<open>NULL\<close>. The new row's
  \<open>id\<close> is \<open>this.lastID\<close>; rows are never deleted, so it is the number of rows.
\<close>

definition insert_bchain :: "block \<Rightarrow> transaction list \<Rightarrow> node \<Rightarrow> error + nat \<times> node" where
  "insert_bchain b transactionsJson s =
     (case blockIndex b of None \<Rightarrow> Inl (SQLITE_CONSTRAINT_NOTNULL ''bchain.blockIndex'') | Some i \<Rightarrow>
      case block_timestamp b of None \<Rightarrow> Inl (SQLITE_CONSTRAINT_NOTNULL ''bchain.timestamp'') | Some t \<Rightarrow>
      case nonce b of None \<Rightarrow> Inl (SQLITE_CONSTRAINT_NOTNULL ''bchain.nonce'') | Some n \<Rightarrow>
      case hash b of None \<Rightarrow> Inl (SQLITE_CONSTRAINT_NOTNULL ''bchain.hash'') | Some h \<Rightarrow>
      case previousBlockHash b of None \<Rightarrow> Inl (SQLITE_CONSTRAINT_NOTNULL ''bchain.previousBlockHash'') | Some ph \<Rightarrow>
      case merkleRoot b of None \<Rightarrow> Inl (SQLITE_CONSTRAINT_NOTNULL ''bchain.merkleRoot'') | Some m \<Rightarrow>
      if i \<in> set (map row_blockIndex (bchain s)) then Inl (SQLITE_CONSTRAINT_UNIQUE ''bchain.blockIndex'')
      else
        let lastID = Suc (length (bchain s))
        in Inr (lastID,
                s\<lparr>bchain := bchain s @
                    [\<lparr>row_id = lastID, row_blockIndex = i, row_timestamp = t,
                      row_transactions = transactionsJson, row_nonce = n, row_hash = h,
                      row_previousBlockHash = ph, row_merkleRoot = m\<rparr>]\<rparr>))"

text \<open>\<open>INSERT INTO confirmed_transactions\<close> for one transaction of the block.\<close>

definition insert_confirmed :: "nat \<Rightarrow> transaction \<Rightarrow> node \<Rightarrow> error + node" where
  "insert_confirmed bid tx s =
     (case projId tx of None \<Rightarrow> Inl (SQLITE_CONSTRAINT_NOTNULL ''confirmed_transactions.projId'') | Some pj \<Rightarrow>
      case timestamp tx of None \<Rightarrow> Inl (SQLITE_CONSTRAINT_NOTNULL ''confirmed_transactions.timestamp'') | Some t \<Rightarrow>
      case submitterId tx of None \<Rightarrow> Inl (SQLITE_CONSTRAINT_NOTNULL ''confirmed_transactions.submitter_id'') | Some sb \<Rightarrow>
      case rawDataJson tx of None \<Rightarrow> Inl (SQLITE_CONSTRAINT_NOTNULL ''confirmed_transactions.raw_data_json'') | Some raw \<Rightarrow>
      if transactionId tx \<in> set (map transaction_id (confirmed_transactions s))
      then Inl (SQLITE_CONSTRAINT_UNIQUE ''confirmed_transactions.transaction_id'')
      else if bid \<notin> set (map row_id (bchain s)) then Inl SQLITE_CONSTRAINT_FOREIGNKEY
      else
        Inr (s\<lparr>confirmed_transactions := confirmed_transactions s @
                 [\<lparr>transaction_id = transactionId tx, col_projId = pj, col_timestamp = t,
                   submitter_id = sb, station_id = stationID tx, so2 = SO2 tx, no2 = NO2 tx,
                   pm10 = PM10 tx, pm2_5 = PM2_5 tx, raw_data_json = raw,
                   col_rowHash = rowHash tx, block_id = bid\<rparr>]\<rparr>))"

text \<open>The inserts of \<open>insertTxPromises\<close>, run in the order they were queued; the first failure rejects.\<close>

fun insert_all_confirmed :: "nat \<Rightarrow> transaction list \<Rightarrow> node \<Rightarrow> error + node" where
  "insert_all_confirmed bid [] s = Inr s"
| "insert_all_confirmed bid (tx # txs) s =
     (case insert_confirmed bid tx s of
        Inl err \<Rightarrow> Inl err
      | Inr s' \<Rightarrow> insert_all_confirmed bid txs s')"

text \<open>
  \<open>BEGIN TRANSACTION\<close>, the header, the confirmed rows, \<open>COMMIT\<close>. Every failure
  runs \<open>ROLLBACK\<close>, which puts the tables back as they were at \<open>BEGIN\<close>: the state
  \<open>s\<close>. A missing \<open>transactions\<close> property throws at \<open>transactions.map\<close>, before \<open>BEGIN\<close>.
\<close>

definition addBlockToBlockchain :: "block \<Rightarrow> node \<Rightarrow> (error + block) \<times> node" where
  "addBlockToBlockchain b s =
     (case transactions b of
        None \<Rightarrow> (Inl TypeError, s)
      | Some txs \<Rightarrow>
          (case insert_bchain b (map lightweight txs) s of
             Inl err \<Rightarrow> (Inl err, s)
           | Inr (bid, s1) \<Rightarrow>
               (case insert_all_confirmed bid txs s1 of
                  Inl insertErr \<Rightarrow> (Inl insertErr, s)
                | Inr s2 \<Rightarrow> (Inr b, s2))))"

subsection \<open>getLastBlock and getAllBlocks\<close>

text \<open>\<open>SELECT * FROM bchain ORDER BY blockIndex DESC LIMIT 1\<close>.\<close>

fun getLastBlock_rows :: "bchain_row list \<Rightarrow> bchain_row option" where
  "getLastBlock_rows [] = None"
| "getLastBlock_rows (r # rs) =
     (case getLastBlock_rows rs of
        None \<Rightarrow> Some r
      | Some m \<Rightarrow> if row_blockIndex r < row_blockIndex m then Some m else Some r)"

definition getLastBlock :: "node \<Rightarrow> bchain_row option" where
  "getLastBlock s = getLastBlock_rows (bchain s)"

text \<open>A row as the block object the \<open>/chain\<close> response carries (its \<open>id\<close> is never read).\<close>

definition block_of_row :: "bchain_row \<Rightarrow> block" where
  "block_of_row r =
     \<lparr>blockIndex = Some (row_blockIndex r), block_timestamp = Some (row_timestamp r),
      transactions = Some (row_transactions r), merkleRoot = Some (row_merkleRoot r),
      previousBlockHash = Some (row_previousBlockHash r), nonce = Some (row_nonce r),
      hash = Some (row_hash r)\<rparr>"

definition getAllBlocks :: "node \<Rightarrow> block list" where
  "getAllBlocks s = map block_of_row (sort_key row_blockIndex (bchain s))"

section \<open>Broadcasts\<close>

text \<open>
  \<open>await Promise.all(networkNodes.map(url => axios.post(...)))\<close>. The list has one entry
  for each peer of \<open>networkNodes\<close>: \<open>True\<close> when the request resolves, \<open>False\<close> when the
  peer is unreachable or answers with an error status. No request has a \<open>.catch\<close> of its
  own, so one rejection rejects the whole \<open>Promise.all\<close>.
\<close>

definition broadcast :: "bool list \<Rightarrow> error + unit" where
  "broadcast peers = (if list_all (\<lambda>ok. ok) peers then Inr () else Inl RequestFailed)"

section \<open>routes/transactions.js\<close>

datatype tx_reply =
    TxAccepted submission
  | TxMissingFields
  | TxHashMismatch
  | TxDuplicate
  | TxNotAccepted
  | TxCreated transaction
  | TxSubmitFailed error

text \<open>The HTTP status of each reply.\<close>

fun tx_status :: "tx_reply \<Rightarrow> nat" where
  "tx_status (TxAccepted _) = 201"
| "tx_status TxMissingFields = 400"
| "tx_status TxHashMismatch = 400"
| "tx_status TxDuplicate = 409"
| "tx_status TxNotAccepted = 500"
| "tx_status (TxCreated _) = 201"
| "tx_status (TxSubmitFailed _) = 500"

text \<open>Check 1 of \<open>POST /receive\<close>: a mandatory property is missing.\<close>

definition missing_transaction_fields :: "submission \<Rightarrow> bool" where
  "missing_transaction_fields transactionData =
     (falsy (in_transactionId transactionData) \<or> falsy (in_timestamp transactionData) \<or>
      falsy (in_rowHash transactionData) \<or> falsy (in_rawDataJson transactionData) \<or>
      in_projId transactionData = None)"

text \<open>\<open>transactionId + timestamp + rawDataJson\<close>, the text whose digest is the \<open>rowHash\<close>.\<close>

definition dataToHash :: "submission \<Rightarrow> string" where
  "dataToHash transactionData =
     js_str (in_transactionId transactionData) @ js_str (in_timestamp transactionData) @
     js_str (in_rawDataJson transactionData)"

text \<open>\<open>POST /receive\<close>: a transaction broadcast by a peer.\<close>

definition receive_transaction :: "env \<Rightarrow> submission \<Rightarrow> node \<Rightarrow> tx_reply \<times> node" where
  "receive_transaction e transactionData s =
     (if missing_transaction_fields transactionData
      then (TxMissingFields, s)
      else
        let reCalculatedHash = sha256 (dataToHash transactionData)
        in if Some reCalculatedHash \<noteq> in_rowHash transactionData then (TxHashMismatch, s)
           else
             (case createTransaction e transactionData s of
                (Inr _, s') \<Rightarrow> (TxAccepted transactionData, s')
              | (Inl err, s') \<Rightarrow>
                  if err = SQLITE_CONSTRAINT_UNIQUE ''mempool_transactions.transaction_id''
                  then (TxDuplicate, s')
                  else (TxNotAccepted, s')))"

text \<open>\<open>POST /submit\<close>: a new transaction from a client, stored and then broadcast.\<close>

definition submit_transaction :: "env \<Rightarrow> bool list \<Rightarrow> submission \<Rightarrow> node \<Rightarrow> tx_reply \<times> node" where
  "submit_transaction e peers rawTransactionData s =
     (case createTransaction e rawTransactionData s of
        (Inl err, s') \<Rightarrow> (TxSubmitFailed err, s')
      | (Inr newTransaction, s') \<Rightarrow>
          (case broadcast peers of
             Inl err \<Rightarrow> (TxSubmitFailed err, s')
           | Inr _ \<Rightarrow> (TxCreated newTransaction, s')))"

section \<open>routes/blocks.js\<close>

definition transactionsForBlockHash :: "transaction list \<Rightarrow> (string \<times> string) list" where
  "transactionsForBlockHash txs = map (\<lambda>tx. (transactionId tx, rowHash tx)) txs"

definition JSON_stringify :: "(string \<times> string) list \<Rightarrow> string" where
  "JSON_stringify ps =
     ''['' @ join_comma
       (map (\<lambda>(i, h). ''{'' @ json_string ''id'' @ '':'' @ json_string i @ '','' @
                        json_string ''hash'' @ '':'' @ json_string h @ ''}'') ps) @ '']''"

text \<open>
  \<open>blockIndex + timestamp + merkleRoot + previousBlockHash + nonce + JSON.stringify(...)\<close>.
  Where it is evaluated \<open>blockIndex\<close> is a number and \<open>timestamp\<close> a string, so every
  \<open>+\<close> concatenates.
\<close>

definition blockHashInput :: "block \<Rightarrow> transaction list \<Rightarrow> string" where
  "blockHashInput b txs =
     js_num (blockIndex b) @ js_str (block_timestamp b) @ js_str (merkleRoot b) @
     js_str (previousBlockHash b) @ js_num (nonce b) @
     JSON_stringify (transactionsForBlockHash txs)"

datatype mine_result = NotMining int | Mined block

definition BLOCK_SIZE :: nat where
  "BLOCK_SIZE = 5"

definition lastHash :: "bchain_row option \<Rightarrow> string" where
  "lastHash lastBlock = (case lastBlock of Some r \<Rightarrow> row_hash r | None \<Rightarrow> ''0'')"

definition lastIndex :: "bchain_row option \<Rightarrow> int" where
  "lastIndex lastBlock = (case lastBlock of Some r \<Rightarrow> row_blockIndex r | None \<Rightarrow> - 1)"

text \<open>Steps 1 to 4 of \<open>mineBlockInternal\<close>: the candidate block.\<close>

definition newBlock :: "env \<Rightarrow> node \<Rightarrow> block" where
  "newBlock e s =
     (let pendingTransactions = getTransactionsForBlock BLOCK_SIZE s;
          lastBlock = getLastBlock s;
          b = \<lparr>blockIndex = Some (lastIndex lastBlock + 1), block_timestamp = Some (now e),
               transactions = Some pendingTransactions,
               merkleRoot = calculateMerkleRoot pendingTransactions,
               previousBlockHash = Some (lastHash lastBlock), nonce = Some 0, hash = Some []\<rparr>
      in b\<lparr>hash := Some (sha256 (blockHashInput b pendingTransactions))\<rparr>)"

definition mineBlockInternal :: "env \<Rightarrow> bool list \<Rightarrow> node \<Rightarrow> (error + mine_result) \<times> node" where
  "mineBlockInternal e peers s =
     (let mempoolCount = getMempoolCount s
      in if mempoolCount < int BLOCK_SIZE then (Inr (NotMining mempoolCount), s)
         else
           let b = newBlock e s
           in case addBlockToBlockchain b s of
                (Inl err, s1) \<Rightarrow> (Inl err, s1)
              | (Inr _, s1) \<Rightarrow>
                  let confirmedTransactionIds = map transactionId (getTransactionsForBlock BLOCK_SIZE s);
                      s2 = removeTransactionsFromMempool confirmedTransactionIds s1
                  in case broadcast peers of
                       Inl err \<Rightarrow> (Inl err, s2)
                     | Inr _ \<Rightarrow> (Inr (Mined b), s2))"

datatype block_reply =
    BlockMissingFields
  | BlockIgnored
  | BlockNotSequential
  | BlockLinkMismatch
  | BlockHashMismatch
  | BlockMerkleMismatch
  | BlockAccepted
  | BlockFailed error

fun block_status :: "block_reply \<Rightarrow> nat" where
  "block_status BlockMissingFields = 400"
| "block_status BlockIgnored = 200"
| "block_status BlockNotSequential = 400"
| "block_status BlockLinkMismatch = 400"
| "block_status BlockHashMismatch = 400"
| "block_status BlockMerkleMismatch = 400"
| "block_status BlockAccepted = 200"
| "block_status (BlockFailed _) = 500"

text \<open>
  \<open>POST /receive\<close> for blocks. The body carries a \<open>newBlock\<close> object, which is the
  argument \<open>b\<close>. Check 1: a mandatory property is missing (\<open>undefined\<close>, or an empty
  string where the test is \<open>!v\<close>); \<open>nonce\<close> is not among them.
\<close>

definition missing_fields :: "block \<Rightarrow> bool" where
  "missing_fields b =
     (blockIndex b = None \<or> falsy (block_timestamp b) \<or> transactions b = None \<or>
      falsy (merkleRoot b) \<or> falsy (previousBlockHash b) \<or> falsy (hash b))"

definition receive_block :: "block \<Rightarrow> node \<Rightarrow> block_reply \<times> node" where
  "receive_block b s =
     (case (blockIndex b, transactions b) of
        (Some idx, Some txs) \<Rightarrow>
          if missing_fields b then (BlockMissingFields, s)
          else
            let lastBlockOnThisChain = getLastBlock s;
                lastBlockOnThisChainHash = lastHash lastBlockOnThisChain;
                lastBlockOnThisChainIndex = lastIndex lastBlockOnThisChain
            in if idx \<le> lastBlockOnThisChainIndex then (BlockIgnored, s)
               else if idx \<noteq> lastBlockOnThisChainIndex + 1 then (BlockNotSequential, s)
               else if previousBlockHash b \<noteq> Some lastBlockOnThisChainHash then (BlockLinkMismatch, s)
               else if Some (sha256 (blockHashInput b txs)) \<noteq> hash b then (BlockHashMismatch, s)
               else if calculateMerkleRoot txs \<noteq> merkleRoot b then (BlockMerkleMismatch, s)
               else
                 (case addBlockToBlockchain b s of
                    (Inl err, s1) \<Rightarrow> (BlockFailed err, s1)
                  | (Inr _, s1) \<Rightarrow>
                      (BlockAccepted, removeTransactionsFromMempool (map transactionId txs) s1))
      | _ \<Rightarrow> (BlockMissingFields, s))"

section \<open>index.js: initial chain synchronization\<close>

text \<open>
  The \<open>for (const block of fullChain)\<close> loop. A rejected \<open>addBlockToBlockchain\<close> throws
  out of the loop into the \<open>catch (syncError)\<close>, which logs and goes on: what was added
  before stays.
\<close>

fun apply_chain :: "block list \<Rightarrow> node \<Rightarrow> error option \<times> node" where
  "apply_chain [] s = (None, s)"
| "apply_chain (b # bs) s =
     (case addBlockToBlockchain b s of
        (Inl err, s1) \<Rightarrow> (Some err, s1)
      | (Inr _, s1) \<Rightarrow>
          (case transactions b of
             None \<Rightarrow> (Some TypeError, s1)
           | Some txs \<Rightarrow> apply_chain bs (removeTransactionsFromMempool (map transactionId txs) s1)))"

text \<open>
  \<open>fullChain\<close> is the \<open>chain\<close> property of the authority's answer: \<open>Inl\<close> when the request
  fails, \<open>Inr None\<close> when the property is missing.
\<close>

definition synchronize :: "error + block list option \<Rightarrow> node \<Rightarrow> node" where
  "synchronize response s =
     (if getLastBlock s = None \<and> js_str (theProj s) \<noteq> ''0''
      then (case response of
              Inl syncError \<Rightarrow> s
            | Inr None \<Rightarrow> s
            | Inr (Some fullChain) \<Rightarrow>
                if length fullChain > 0 then snd (apply_chain fullChain s) else s)
      else s)"

section \<open>Recomputing a stored block\<close>



section \<open>Sample values\<close>

text \<open>A fresh database: the three tables exist and are empty.\<close>

definition fresh_node :: "string option \<Rightarrow> node" where
  "fresh_node p = \<lparr>theProj = p, bchain = [], mempool_transactions = [], confirmed_transactions = []\<rparr>"

text \<open>A well-formed request body with identifier \<open>i\<close> and timestamp \<open>t\<close>, as a peer broadcasts it.\<close>

definition sample_submission :: "string \<Rightarrow> string \<Rightarrow> submission" where
  "sample_submission i t =
     \<lparr>in_transactionId = Some i, in_timestamp = Some t, in_rowHash = Some (sha256 (i @ t @ ''{}'')),
      in_rawDataJson = Some ''{}'', in_projId = Some ''1'', in_submitterId = Some ''plant'',
      in_stationID = None, in_SO2 = None, in_NO2 = None, in_PM10 = None, in_PM2_5 = None\<rparr>"

text \<open>The mempool row that transaction leaves, and the object a block carries for it.\<close>

definition sample_row :: "string \<Rightarrow> string \<Rightarrow> mempool_row" where
  "sample_row i t =
     \<lparr>transaction_id = i, col_projId = ''1'', col_timestamp = t, submitter_id = ''plant'',
      station_id = None, so2 = None, no2 = None, pm10 = None, pm2_5 = None,
      raw_data_json = ''{}'', col_rowHash = sha256 (i @ t @ ''{}'')\<rparr>"

definition sample_tx :: "string \<Rightarrow> string \<Rightarrow> transaction" where
  "sample_tx i t = transaction_of_row (sample_row i t)"

definition sample_env :: env where
  "sample_env = \<lparr>uuid = ''0f8fad5bd9cb469fa16570867728950e'', now = ''2025-01-01T00:00:09.000Z''\<rparr>"



text \<open>The hash the producer computes for a block (step 4 of \<open>mineBlockInternal\<close>).\<close>

definition seal :: "block \<Rightarrow> block" where
  "seal b = b\<lparr>hash := Some (sha256 (blockHashInput b (case transactions b of None \<Rightarrow> [] | Some txs \<Rightarrow> txs)))\<rparr>"

text \<open>
  A replica that holds the genesis block and one pending transaction, and the block
  with index 1 that confirms this transaction.
\<close>

definition replica_node :: node where
  "replica_node =
     \<lparr>theProj = Some ''1'', bchain = [genesisBlock ''2025-01-01T00:00:00.000Z''],
      mempool_transactions = [sample_row ''t1'' ''2025-01-01T00:00:01.000Z''],
      confirmed_transactions = []\<rparr>"

definition second_block :: block where
  "second_block =
     seal \<lparr>blockIndex = Some 1, block_timestamp = Some ''2025-01-01T00:00:05.000Z'',
           transactions = Some [sample_tx ''t1'' ''2025-01-01T00:00:01.000Z''],
           merkleRoot = calculateMerkleRoot [sample_tx ''t1'' ''2025-01-01T00:00:01.000Z''],
           previousBlockHash = Some (sha256 ''regulator_genesis_block_v1''),
           nonce = Some 0, hash = None\<rparr>"

text \<open>
  The authority after start-up with six pending transactions, stored in the order in
  which they arrived; their timestamps are not in that order.
\<close>

definition authority_node :: node where
  "authority_node =
     \<lparr>theProj = Some ''0'', bchain = [genesisBlock ''2025-01-01T00:00:00.000Z''],
      mempool_transactions =
        [sample_row ''t3'' ''2025-01-01T00:00:03.000Z'', sample_row ''t1'' ''2025-01-01T00:00:01.000Z'',
         sample_row ''t6'' ''2025-01-01T00:00:06.000Z'', sample_row ''t2'' ''2025-01-01T00:00:02.000Z'',
         sample_row ''t5'' ''2025-01-01T00:00:05.000Z'', sample_row ''t4'' ''2025-01-01T00:00:04.000Z''],
      confirmed_transactions = []\<rparr>"

section \<open>Facts about the digest\<close>

lemma length_pair_level: "length (pair_level xs) = (length xs + 1) div 2"
  by (induction xs rule: pair_level.induct) simp_all

lemma length_round256: "length (round256 k w v) = length v"
  by (induction k w v rule: round256.induct) (simp_all add: Let_def)

lemma length_rounds256: "length (rounds256 ks w v) = length v"
  by (induction ks arbitrary: w v) (simp_all add: length_round256)

lemma length_compress: "length (compress h m) = length h"
  by (simp add: compress_def length_rounds256)

lemma length_foldl_compress: "length (foldl compress h ms) = length h"
  by (induction ms arbitrary: h) (simp_all add: length_compress)

lemma length_concat_hex32: "length (concat (map hex32 ws)) = 8 * length ws"
  by (induction ws) (simp_all add: hex32_def)

lemma length_sha256: "length (sha256 s) = 64"
  by (simp add: sha256_def length_concat_hex32 length_foldl_compress H0_def)

lemma sha256_not_Nil: "sha256 s \<noteq> []"
  using length_sha256 [of s] by auto

section \<open>Facts about the ledger store\<close>

lemma insert_confirmed_Inr:
  assumes "insert_confirmed bid tx s = Inr s'"
  shows "bchain s' = bchain s \<and> mempool_transactions s' = mempool_transactions s \<and>
         theProj s' = theProj s \<and>
         (\<exists>row. confirmed_transactions s' = confirmed_transactions s @ [row] \<and>
                transaction_id row = transactionId tx \<and> col_rowHash row = rowHash tx \<and>
                block_id row = bid)"
  using assms
  by (auto simp: insert_confirmed_def split: option.splits if_splits)

lemma insert_all_confirmed_Inr:
  "insert_all_confirmed bid txs s = Inr s' \<Longrightarrow>
     bchain s' = bchain s \<and> mempool_transactions s' = mempool_transactions s \<and>
     theProj s' = theProj s \<and>
     (\<exists>rows. confirmed_transactions s' = confirmed_transactions s @ rows \<and>
             map transaction_id rows = map transactionId txs \<and>
             map col_rowHash rows = map rowHash txs \<and>
             list_all (\<lambda>r. block_id r = bid) rows)"
proof (induction txs arbitrary: s)
  case Nil
  then show ?case by simp
next
  case (Cons tx txs)
  from Cons.prems obtain s1 where s1: "insert_confirmed bid tx s = Inr s1"
    and rest: "insert_all_confirmed bid txs s1 = Inr s'"
    by (auto split: sum.splits)
  from insert_confirmed_Inr [OF s1] obtain row where
    a: "bchain s1 = bchain s" "mempool_transactions s1 = mempool_transactions s" "theProj s1 = theProj s"
    and row: "confirmed_transactions s1 = confirmed_transactions s @ [row]"
      "transaction_id row = transactionId tx" "col_rowHash row = rowHash tx" "block_id row = bid"
    by blast
  from Cons.IH [OF rest] obtain rows where
    b: "bchain s' = bchain s1" "mempool_transactions s' = mempool_transactions s1" "theProj s' = theProj s1"
    and rows: "confirmed_transactions s' = confirmed_transactions s1 @ rows"
      "map transaction_id rows = map transactionId txs" "map col_rowHash rows = map rowHash txs"
      "list_all (\<lambda>r. block_id r = bid) rows"
    by blast
  have "confirmed_transactions s' = confirmed_transactions s @ (row # rows)"
    using row rows by simp
  moreover have "map transaction_id (row # rows) = map transactionId (tx # txs)"
    using row rows by simp
  moreover have "map col_rowHash (row # rows) = map rowHash (tx # txs)"
    using row rows by simp
  moreover have "list_all (\<lambda>r. block_id r = bid) (row # rows)"
    using row rows by simp
  ultimately show ?case
    using a b by metis
qed

lemma insert_bchain_Inr:
  assumes "insert_bchain b light s = Inr (bid, s1)"
  shows "bid = Suc (length (bchain s)) \<and>
         mempool_transactions s1 = mempool_transactions s \<and>
         confirmed_transactions s1 = confirmed_transactions s \<and> theProj s1 = theProj s \<and>
         (\<exists>i t n h ph m.
            blockIndex b = Some i \<and> block_timestamp b = Some t \<and> nonce b = Some n \<and>
            hash b = Some h \<and> previousBlockHash b = Some ph \<and> merkleRoot b = Some m \<and>
            i \<notin> set (map row_blockIndex (bchain s)) \<and>
            bchain s1 = bchain s @
              [\<lparr>row_id = bid, row_blockIndex = i, row_timestamp = t, row_transactions = light,
                row_nonce = n, row_hash = h, row_previousBlockHash = ph, row_merkleRoot = m\<rparr>])"
  using assms
  by (auto simp: insert_bchain_def Let_def split: option.splits if_splits)


lemma addBlockToBlockchain_Inr:
  assumes "addBlockToBlockchain b s = (Inr b', s')"
  shows "b' = b \<and> mempool_transactions s' = mempool_transactions s \<and> theProj s' = theProj s \<and>
         (\<exists>txs i t n h ph m rows.
            transactions b = Some txs \<and>
            blockIndex b = Some i \<and> block_timestamp b = Some t \<and> nonce b = Some n \<and>
            hash b = Some h \<and> previousBlockHash b = Some ph \<and> merkleRoot b = Some m \<and>
            i \<notin> set (map row_blockIndex (bchain s)) \<and>
            bchain s' = bchain s @
              [\<lparr>row_id = Suc (length (bchain s)), row_blockIndex = i, row_timestamp = t,
                row_transactions = map lightweight txs,
                row_nonce = n, row_hash = h, row_previousBlockHash = ph, row_merkleRoot = m\<rparr>] \<and>
            confirmed_transactions s' = confirmed_transactions s @ rows \<and>
            map transaction_id rows = map transactionId txs \<and>
            map col_rowHash rows = map rowHash txs \<and>
            list_all (\<lambda>r. block_id r = Suc (length (bchain s))) rows)"
proof -
  obtain txs where txs: "transactions b = Some txs"
    using assms by (cases "transactions b") (simp_all add: addBlockToBlockchain_def)
  obtain bid s1 where ins: "insert_bchain b (map lightweight txs) s = Inr (bid, s1)"
    using assms txs
    by (cases "insert_bchain b (map lightweight txs) s") (auto simp add: addBlockToBlockchain_def)
  have all: "insert_all_confirmed bid txs s1 = Inr s'" and b': "b' = b"
    using assms txs ins
    by (cases "insert_all_confirmed bid txs s1"; simp add: addBlockToBlockchain_def)+
  from insert_bchain_Inr [OF ins] obtain i t n h ph m where
    bid: "bid = Suc (length (bchain s))"
    and keep1: "mempool_transactions s1 = mempool_transactions s"
      "confirmed_transactions s1 = confirmed_transactions s" "theProj s1 = theProj s"
    and flds: "blockIndex b = Some i" "block_timestamp b = Some t" "nonce b = Some n"
      "hash b = Some h" "previousBlockHash b = Some ph" "merkleRoot b = Some m"
    and fresh: "i \<notin> set (map row_blockIndex (bchain s))"
    and chain1: "bchain s1 = bchain s @
              [\<lparr>row_id = bid, row_blockIndex = i, row_timestamp = t,
                row_transactions = map lightweight txs,
                row_nonce = n, row_hash = h, row_previousBlockHash = ph, row_merkleRoot = m\<rparr>]"
    by blast
  from insert_all_confirmed_Inr [OF all] obtain rows where
    keep2: "bchain s' = bchain s1" "mempool_transactions s' = mempool_transactions s1"
      "theProj s' = theProj s1"
    and rows: "confirmed_transactions s' = confirmed_transactions s1 @ rows"
      "map transaction_id rows = map transactionId txs" "map col_rowHash rows = map rowHash txs"
      "list_all (\<lambda>r. block_id r = bid) rows"
    by blast
  have "mempool_transactions s' = mempool_transactions s" "theProj s' = theProj s"
    using keep1 keep2 by simp_all
  moreover have "bchain s' = bchain s @
              [\<lparr>row_id = Suc (length (bchain s)), row_blockIndex = i, row_timestamp = t,
                row_transactions = map lightweight txs,
                row_nonce = n, row_hash = h, row_previousBlockHash = ph, row_merkleRoot = m\<rparr>]"
    using keep2 chain1 bid by simp
  moreover have "confirmed_transactions s' = confirmed_transactions s @ rows"
    using rows keep1 by simp
  moreover have "list_all (\<lambda>r. block_id r = Suc (length (bchain s))) rows"
    using rows bid by simp
  ultimately show ?thesis
    using b' txs flds fresh rows(2,3) by blast
qed

section \<open>Facts about block reception\<close>

lemma sha256_neq_short: "length h \<noteq> 64 \<Longrightarrow> sha256 x \<noteq> h" "length h \<noteq> 64 \<Longrightarrow> h \<noteq> sha256 x"
  using length_sha256 [of x] by auto

lemma getLastBlock_rows_None: "getLastBlock_rows rs = None \<longleftrightarrow> rs = []"
  by (induction rs) (auto split: option.splits)

lemma getLastBlock_rows_Some:
  "getLastBlock_rows rs = Some m \<Longrightarrow> m \<in> set rs \<and> (\<forall>r \<in> set rs. row_blockIndex r \<le> row_blockIndex m)"
proof (induction rs arbitrary: m)
  case Nil
  then show ?case by simp
next
  case (Cons r rs)
  show ?case
  proof (cases "getLastBlock_rows rs")
    case None
    then have "rs = []" by (simp add: getLastBlock_rows_None)
    with Cons.prems None show ?thesis by simp
  next
    case (Some m')
    from Cons.IH [OF Some] Cons.prems Some show ?thesis
      by (auto split: if_splits)
  qed
qed

lemma getLastBlock_rows_snoc:
  "\<forall>x \<in> set rs. row_blockIndex x < row_blockIndex r \<Longrightarrow> getLastBlock_rows (rs @ [r]) = Some r"
  by (induction rs) auto

lemma lastIndex_bound:
  "r \<in> set (bchain s) \<Longrightarrow> row_blockIndex r \<le> lastIndex (getLastBlock s)"
proof -
  assume r: "r \<in> set (bchain s)"
  then obtain m where m: "getLastBlock_rows (bchain s) = Some m"
    by (cases "getLastBlock_rows (bchain s)") (auto simp: getLastBlock_rows_None)
  from getLastBlock_rows_Some [OF m] r show ?thesis
    by (simp add: lastIndex_def getLastBlock_def m)
qed

lemma receive_block_cases:
  assumes "\<not> missing_fields b" "blockIndex b = Some idx" "transactions b = Some txs"
  shows "receive_block b s =
     (if idx \<le> lastIndex (getLastBlock s) then (BlockIgnored, s)
      else if idx \<noteq> lastIndex (getLastBlock s) + 1 then (BlockNotSequential, s)
      else if previousBlockHash b \<noteq> Some (lastHash (getLastBlock s)) then (BlockLinkMismatch, s)
      else if Some (sha256 (blockHashInput b txs)) \<noteq> hash b then (BlockHashMismatch, s)
      else if calculateMerkleRoot txs \<noteq> merkleRoot b then (BlockMerkleMismatch, s)
      else (case addBlockToBlockchain b s of
              (Inl err, s1) \<Rightarrow> (BlockFailed err, s1)
            | (Inr _, s1) \<Rightarrow> (BlockAccepted, removeTransactionsFromMempool (map transactionId txs) s1)))"
  using assms by (simp add: receive_block_def Let_def)

lemma receive_block_missing:
  "missing_fields b \<Longrightarrow> receive_block b s = (BlockMissingFields, s)"
  by (simp add: receive_block_def split: option.splits)

lemma not_missing_fields:
  "\<not> missing_fields b \<Longrightarrow> \<exists>idx txs. blockIndex b = Some idx \<and> transactions b = Some txs"
  by (auto simp: missing_fields_def)

lemma calculateMerkleRoot_single: "calculateMerkleRoot [tx] = Some (rowHash tx)"
  by (simp add: calculateMerkleRoot_def merkle_loop.simps)

lemma blockHashInput_hash_update: "blockHashInput (b\<lparr>hash := h\<rparr>) txs = blockHashInput b txs"
  by (simp add: blockHashInput_def)

lemmas sample_defs = replica_node_def second_block_def seal_def genesisBlock_def
  sample_tx_def sample_row_def transaction_of_row_def getLastBlock_def lastIndex_def lastHash_def
  missing_fields_def falsy_def calculateMerkleRoot_single sha256_not_Nil sha256_neq_short
  blockHashInput_def

lemma bchain_removeTransactionsFromMempool [simp]:
  "bchain (removeTransactionsFromMempool ids s) = bchain s"
  by (simp add: removeTransactionsFromMempool_def)

lemma receive_block_accepted:
  assumes "receive_block b s = (BlockAccepted, s')"
  shows "\<not> missing_fields b \<and>
         (\<exists>idx txs s1. blockIndex b = Some idx \<and> transactions b = Some txs \<and>
            idx = lastIndex (getLastBlock s) + 1 \<and>
            previousBlockHash b = Some (lastHash (getLastBlock s)) \<and>
            hash b = Some (sha256 (blockHashInput b txs)) \<and>
            merkleRoot b = calculateMerkleRoot txs \<and>
            addBlockToBlockchain b s = (Inr b, s1) \<and>
            s' = removeTransactionsFromMempool (map transactionId txs) s1)"
proof -
  have nm: "\<not> missing_fields b"
    using assms by (auto simp: receive_block_missing)
  then obtain idx txs where f: "blockIndex b = Some idx" "transactions b = Some txs"
    using not_missing_fields by blast
  obtain r1 s1 where a: "addBlockToBlockchain b s = (r1, s1)"
    by (cases "addBlockToBlockchain b s")
  from assms show ?thesis
    unfolding receive_block_cases [OF nm f] using nm f a
    by (cases r1) (auto split: if_splits dest: addBlockToBlockchain_Inr)
qed

lemmas store_defs = addBlockToBlockchain_def insert_bchain_def insert_confirmed_def
  lightweight_def removeTransactionsFromMempool_def

section \<open>Facts about transaction admission\<close>

lemma or_else_present: "\<not> falsy v \<Longrightarrow> or_else v d = js_str v"
  by (auto simp: falsy_def or_else_def js_str_def split: option.splits)

lemma createTransaction_received:
  assumes "\<not> missing_transaction_fields p"
  shows "createTransaction e p s =
     (case in_submitterId p of
        None \<Rightarrow> (Inl (SQLITE_CONSTRAINT_NOTNULL ''mempool_transactions.submitter_id''), s)
      | Some submitter \<Rightarrow>
          if js_str (in_transactionId p) \<in> set (map transaction_id (mempool_transactions s))
          then (Inl (SQLITE_CONSTRAINT_UNIQUE ''mempool_transactions.transaction_id''), s)
          else
            (Inr \<lparr>transactionId = js_str (in_transactionId p), rowHash = js_str (in_rowHash p),
                  projId = in_projId p, timestamp = in_timestamp p,
                  submitterId = Some submitter, stationID = in_stationID p,
                  SO2 = in_SO2 p, NO2 = in_NO2 p, PM10 = in_PM10 p, PM2_5 = in_PM2_5 p,
                  rawDataJson = in_rawDataJson p\<rparr>,
             s\<lparr>mempool_transactions := mempool_transactions s @
                 [\<lparr>transaction_id = js_str (in_transactionId p), col_projId = js_str (in_projId p),
                   col_timestamp = js_str (in_timestamp p), submitter_id = submitter,
                   station_id = in_stationID p, so2 = in_SO2 p, no2 = in_NO2 p,
                   pm10 = in_PM10 p, pm2_5 = in_PM2_5 p,
                   raw_data_json = js_str (in_rawDataJson p), col_rowHash = js_str (in_rowHash p)\<rparr>]\<rparr>))"
proof -
  from assms have pres: "\<not> falsy (in_transactionId p)" "\<not> falsy (in_timestamp p)"
    "\<not> falsy (in_rowHash p)" "\<not> falsy (in_rawDataJson p)" "in_projId p \<noteq> None"
    by (auto simp: missing_transaction_fields_def)
  then obtain i t h raw pj where v: "in_transactionId p = Some i" "in_timestamp p = Some t"
    "in_rowHash p = Some h" "in_rawDataJson p = Some raw" "in_projId p = Some pj"
    by (auto simp: falsy_def split: option.splits)
  show ?thesis
    using pres v
    by (simp add: createTransaction_def or_else_present Let_def js_str_def split: option.splits)
qed

section \<open>Facts about block production\<close>

lemma merkle_loop_not_Nil: "hashes \<noteq> [] \<Longrightarrow> merkle_loop hashes \<noteq> []"
proof (induction hashes rule: merkle_loop.induct)
  case (1 hashes)
  show ?case
  proof (cases "length hashes > 1")
    case True
    let ?padded = "if length hashes mod 2 \<noteq> 0 then hashes @ [last hashes] else hashes"
    have "length (pair_level ?padded) \<noteq> 0"
      using True by (auto simp: length_pair_level)
    then have "pair_level ?padded \<noteq> []"
      by auto
    with "1.IH" [OF True] have "merkle_loop (pair_level ?padded) \<noteq> []"
      by simp
    with True show ?thesis
      by (subst merkle_loop.simps) simp
  next
    case False
    with "1.prems" show ?thesis
      by (subst merkle_loop.simps) simp
  qed
qed

lemma calculateMerkleRoot_Some: "\<exists>m. calculateMerkleRoot txs = Some m"
proof (cases "txs = []")
  case True
  then show ?thesis by (simp add: calculateMerkleRoot_def)
next
  case False
  then have "merkle_loop (map rowHash txs) \<noteq> []"
    by (simp add: merkle_loop_not_Nil)
  with False show ?thesis
    by (auto simp: calculateMerkleRoot_def split: list.splits)
qed

lemmas mine_defs = newBlock_def getTransactionsForBlock_def BLOCK_SIZE_def getMempoolCount_def
  authority_node_def sample_row_def transaction_of_row_def genesisBlock_def getLastBlock_def
  lastIndex_def lastHash_def

lemma mined_ok:
  "fst (addBlockToBlockchain (newBlock sample_env authority_node) authority_node) =
     Inr (newBlock sample_env authority_node)"
proof -
  obtain m where m: "calculateMerkleRoot (getTransactionsForBlock BLOCK_SIZE authority_node) = Some m"
    using calculateMerkleRoot_Some by blast
  have sel: "getTransactionsForBlock BLOCK_SIZE authority_node =
      map transaction_of_row
        [sample_row ''t1'' ''2025-01-01T00:00:01.000Z'', sample_row ''t2'' ''2025-01-01T00:00:02.000Z'',
         sample_row ''t3'' ''2025-01-01T00:00:03.000Z'', sample_row ''t4'' ''2025-01-01T00:00:04.000Z'',
         sample_row ''t5'' ''2025-01-01T00:00:05.000Z'']"
    by (simp add: getTransactionsForBlock_def BLOCK_SIZE_def authority_node_def sample_row_def)
  show ?thesis
    unfolding newBlock_def Let_def sel using m [unfolded sel]
    by (simp add: store_defs authority_node_def sample_row_def transaction_of_row_def genesisBlock_def
        getLastBlock_def lastIndex_def lastHash_def)
qed

lemmas admission_defs = submit_transaction_def createTransaction_def or_else_def js_str_def
  sample_submission_def sample_env_def replica_node_def sample_row_def broadcast_def


lemma newBlock_fields:
  "transactions (newBlock e s) = Some (getTransactionsForBlock BLOCK_SIZE s)"
  "blockIndex (newBlock e s) = Some (lastIndex (getLastBlock s) + 1)"
  "previousBlockHash (newBlock e s) = Some (lastHash (getLastBlock s))"
  "block_timestamp (newBlock e s) = Some (now e)"
  "nonce (newBlock e s) = Some 0"
  "merkleRoot (newBlock e s) = calculateMerkleRoot (getTransactionsForBlock BLOCK_SIZE s)"
  by (simp_all add: newBlock_def Let_def)


section \<open>Two digests, evaluated\<close>





section \<open>Facts about stored blocks\<close>

lemma rowHash_lightweight [simp]: "rowHash (lightweight tx) = rowHash tx"
  and transactionId_lightweight [simp]: "transactionId (lightweight tx) = transactionId tx"
  by (simp_all add: lightweight_def)












section \<open>Facts about synchronization\<close>

lemma insert_confirmed_lightweight:
  "insert_confirmed bid (lightweight tx) s = Inl (SQLITE_CONSTRAINT_NOTNULL ''confirmed_transactions.projId'')"
  by (simp add: insert_confirmed_def lightweight_def)

lemma addBlockToBlockchain_lightweight:
  assumes "transactions b = Some (map lightweight txs)" "txs \<noteq> []"
  shows "\<exists>err. addBlockToBlockchain b s = (Inl err, s)"
proof -
  from assms(2) obtain tx rest where txs: "txs = tx # rest"
    by (cases txs) auto
  show ?thesis
  proof (cases "insert_bchain b (map lightweight (map lightweight txs)) s")
    case (Inl err)
    with assms(1) show ?thesis
      by (simp add: addBlockToBlockchain_def)
  next
    case (Inr res)
    then obtain bid s1 where "insert_bchain b (map lightweight (map lightweight txs)) s = Inr (bid, s1)"
      by (cases res) auto
    with assms(1) txs show ?thesis
      by (simp add: addBlockToBlockchain_def insert_confirmed_lightweight)
  qed
qed

section \<open>Claims\<close>

text \<open>
  C3 (as stated): for every single-element transaction list with leaf digest \<open>d\<close>, the
  merkle-root computation returns \<open>sha256 (d @ d)\<close>. It fails: a one-element array
  never enters the \<open>while (hashes.length > 1)\<close> loop, so the odd-count padding is not
  applied to it. At the leaf \<open>''a''\<close> the root is \<open>''a''\<close>, which is no digest at all.
\<close>

theorem C3_single_leaf_counterexample:
  "calculateMerkleRoot
     [\<lparr>transactionId = ''t1'', rowHash = ''a'', projId = None, timestamp = None,
       submitterId = None, stationID = None, SO2 = None, NO2 = None, PM10 = None,
       PM2_5 = None, rawDataJson = None\<rparr>] \<noteq> Some (sha256 (''a'' @ ''a''))"
proof -
  have "length (sha256 (''a'' @ ''a'')) = 64"
    by (rule length_sha256)
  then have "sha256 (''a'' @ ''a'') \<noteq> ''a''"
    by auto
  then show ?thesis
    by (simp add: calculateMerkleRoot_def merkle_loop.simps)
qed

text \<open>
  C3 (amended): for every single-element transaction list with leaf digest \<open>d\<close>, the
  merkle-root computation returns \<open>d\<close> itself; the duplicate-pad rule applies to levels
  of odd length three or more.
\<close>

theorem C3_single_leaf_is_root:
  "calculateMerkleRoot [tx] = Some (rowHash tx)"
  by (simp add: calculateMerkleRoot_def merkle_loop.simps)







text \<open>
  C6: a received block that carries the mandatory properties and whose \<open>blockIndex\<close> is
  at most the index of the last local block is answered with the success reply
  \<open>BlockIgnored\<close> (HTTP status 200) and the state is unchanged. In particular, once a
  block has been accepted, receiving the same block again is ignored and the chain holds
  exactly one row with its index.
\<close>

theorem C6_stale_block_is_ignored:
  "(\<not> missing_fields b \<and> blockIndex b = Some idx \<and> idx \<le> lastIndex (getLastBlock s) \<longrightarrow>
      receive_block b s = (BlockIgnored, s) \<and> block_status BlockIgnored = 200) \<and>
   (receive_block b s = (BlockAccepted, s') \<longrightarrow>
      receive_block b s' = (BlockIgnored, s') \<and>
      length (filter (\<lambda>r. Some (row_blockIndex r) = blockIndex b) (bchain s')) = 1)"
proof (intro conjI impI)
  assume h: "\<not> missing_fields b \<and> blockIndex b = Some idx \<and> idx \<le> lastIndex (getLastBlock s)"
  then obtain txs where "transactions b = Some txs"
    using not_missing_fields by blast
  with h show "receive_block b s = (BlockIgnored, s)"
    by (simp add: receive_block_cases)
next
  show "block_status BlockIgnored = 200"
    by simp
next
  assume acc: "receive_block b s = (BlockAccepted, s')"
  from receive_block_accepted [OF acc] obtain idx txs s1 where
    nm: "\<not> missing_fields b" and f: "blockIndex b = Some idx" "transactions b = Some txs"
    and idx: "idx = lastIndex (getLastBlock s) + 1"
    and add: "addBlockToBlockchain b s = (Inr b, s1)"
    and s': "s' = removeTransactionsFromMempool (map transactionId txs) s1"
    by blast
  from addBlockToBlockchain_Inr [OF add] f obtain row where
    chain1: "bchain s1 = bchain s @ [row]" and row: "row_blockIndex row = idx"
    by auto
  have chain: "bchain s' = bchain s @ [row]"
    using chain1 s' by simp
  have below: "\<forall>x \<in> set (bchain s). row_blockIndex x < row_blockIndex row"
    using lastIndex_bound [of _ s] idx row by fastforce
  then have "getLastBlock s' = Some row"
    by (simp add: getLastBlock_def chain getLastBlock_rows_snoc)
  then have "lastIndex (getLastBlock s') = idx"
    by (simp add: lastIndex_def row)
  then show "receive_block b s' = (BlockIgnored, s')"
    using nm f by (simp add: receive_block_cases)
  have "filter (\<lambda>r. Some (row_blockIndex r) = blockIndex b) (bchain s) = []"
    using below f row by (auto simp: filter_empty_conv)
  then show "length (filter (\<lambda>r. Some (row_blockIndex r) = blockIndex b) (bchain s')) = 1"
    using chain f row by simp
qed

theorem C6_stale_block_is_ignored_witness:
  "receive_block second_block replica_node =
     (BlockAccepted, snd (receive_block second_block replica_node)) \<and>
   receive_block second_block (snd (receive_block second_block replica_node)) =
     (BlockIgnored, snd (receive_block second_block replica_node)) \<and>
   map row_blockIndex (bchain (snd (receive_block second_block replica_node))) = [0, 1]"
proof -
  let ?txs = "[sample_tx ''t1'' ''2025-01-01T00:00:01.000Z'']"
  let ?s' = "snd (receive_block second_block replica_node)"
  have nm: "\<not> missing_fields second_block"
    by (simp add: sample_defs)
  have f: "blockIndex second_block = Some 1" "transactions second_block = Some ?txs"
    by (simp_all add: sample_defs)
  have acc: "receive_block second_block replica_node = (BlockAccepted, ?s')"
    unfolding receive_block_cases [OF nm f]
    by (simp add: sample_defs store_defs)
  have chain: "map row_blockIndex (bchain ?s') = [0, 1]"
    unfolding receive_block_cases [OF nm f]
    by (simp add: sample_defs store_defs)
  have stale: "1 \<le> lastIndex (getLastBlock ?s')"
    unfolding receive_block_cases [OF nm f]
    by (simp add: sample_defs store_defs)
  have again: "receive_block second_block ?s' = (BlockIgnored, ?s')"
    using C6_stale_block_is_ignored [where b = second_block and s = replica_node and s' = ?s', THEN conjunct2] acc
    by blast
  have "receive_block second_block ?s' = (BlockIgnored, ?s')"
    using C6_stale_block_is_ignored [where b = second_block and s = ?s' and idx = 1, THEN conjunct1] nm f(1) stale
    by blast
  show ?thesis
    using acc again chain by blast
qed

text \<open>
  C8 (as stated): a remotely received transaction with a missing mandatory property is
  rejected as \<open>MissingFields\<close>, one whose recomputed digest differs from \<open>rowHash\<close> as
  \<open>HashMismatch\<close>, one whose id is already pending as \<open>DuplicateTransaction\<close>, and
  otherwise it is inserted into the mempool. The last part fails: \<open>submitterId\<close> is not
  among the properties the handler checks, but the column \<open>submitter_id\<close> is
  \<open>NOT NULL\<close>. The transaction below has the five mandatory properties, a matching
  digest and a fresh id; the insert fails, the reply is the generic 500 and the mempool
  is unchanged.
\<close>

theorem C8_missing_submitter_counterexample:
  "\<not> missing_transaction_fields ((sample_submission ''t2'' ''2025-01-01T00:00:02.000Z'')\<lparr>in_submitterId := None\<rparr>) \<and>
   in_rowHash ((sample_submission ''t2'' ''2025-01-01T00:00:02.000Z'')\<lparr>in_submitterId := None\<rparr>) =
     Some (sha256 (''t2'' @ ''2025-01-01T00:00:02.000Z'' @ ''{}'')) \<and>
   ''t2'' \<notin> set (map transaction_id (mempool_transactions replica_node)) \<and>
   receive_transaction sample_env
     ((sample_submission ''t2'' ''2025-01-01T00:00:02.000Z'')\<lparr>in_submitterId := None\<rparr>) replica_node =
     (TxNotAccepted, replica_node)"
  by (simp add: receive_transaction_def missing_transaction_fields_def falsy_def sample_submission_def
      sha256_not_Nil js_str_def dataToHash_def createTransaction_def or_else_def Let_def replica_node_def sample_row_def)

text \<open>
  C8 (amended): for every remotely received transaction: if any of \<open>transactionId\<close>,
  \<open>timestamp\<close>, \<open>rowHash\<close>, \<open>rawDataJson\<close> is missing or empty or \<open>projId\<close> is
  missing, the reply is \<open>MissingFields\<close> (400); else if the digest of
  \<open>transactionId + timestamp + rawDataJson\<close> differs from \<open>rowHash\<close>, the reply is
  \<open>HashMismatch\<close> (400); else if \<open>submitterId\<close> is missing, the reply is the generic
  failure (500); else if the id is already in the mempool, the reply is the distinct
  \<open>DuplicateTransaction\<close> (409); the mempool is unchanged in all four cases. Otherwise
  the transaction is appended to the mempool with the received id, timestamp, raw data,
  digest and project id.
\<close>

theorem C8_remote_reception:
  "(missing_transaction_fields p \<longrightarrow> receive_transaction e p s = (TxMissingFields, s)) \<and>
   (\<not> missing_transaction_fields p \<and> in_rowHash p \<noteq> Some (sha256 (dataToHash p)) \<longrightarrow>
      receive_transaction e p s = (TxHashMismatch, s)) \<and>
   (\<not> missing_transaction_fields p \<and> in_rowHash p = Some (sha256 (dataToHash p)) \<and>
    in_submitterId p = None \<longrightarrow>
      receive_transaction e p s = (TxNotAccepted, s)) \<and>
   (\<not> missing_transaction_fields p \<and> in_rowHash p = Some (sha256 (dataToHash p)) \<and>
    in_submitterId p \<noteq> None \<and>
    in_transactionId p \<in> Some ` set (map transaction_id (mempool_transactions s)) \<longrightarrow>
      receive_transaction e p s = (TxDuplicate, s)) \<and>
   (\<not> missing_transaction_fields p \<and> in_rowHash p = Some (sha256 (dataToHash p)) \<and>
    in_submitterId p \<noteq> None \<and>
    in_transactionId p \<notin> Some ` set (map transaction_id (mempool_transactions s)) \<longrightarrow>
      (\<exists>row. receive_transaction e p s =
                (TxAccepted p, s\<lparr>mempool_transactions := mempool_transactions s @ [row]\<rparr>) \<and>
             Some (transaction_id row) = in_transactionId p \<and>
             Some (col_timestamp row) = in_timestamp p \<and>
             Some (raw_data_json row) = in_rawDataJson p \<and>
             Some (col_rowHash row) = in_rowHash p \<and>
             Some (col_projId row) = in_projId p)) \<and>
   tx_status TxMissingFields = 400 \<and> tx_status TxHashMismatch = 400 \<and>
   tx_status TxDuplicate = 409 \<and> tx_status TxNotAccepted = 500"
proof (intro conjI impI)
  assume "missing_transaction_fields p"
  then show "receive_transaction e p s = (TxMissingFields, s)"
    by (simp add: receive_transaction_def)
next
  assume "\<not> missing_transaction_fields p \<and> in_rowHash p \<noteq> Some (sha256 (dataToHash p))"
  then show "receive_transaction e p s = (TxHashMismatch, s)"
    by (auto simp: receive_transaction_def dataToHash_def Let_def)
next
  assume h: "\<not> missing_transaction_fields p \<and> in_rowHash p = Some (sha256 (dataToHash p)) \<and>
    in_submitterId p = None"
  then show "receive_transaction e p s = (TxNotAccepted, s)"
    by (simp add: receive_transaction_def dataToHash_def Let_def createTransaction_received)
next
  assume h: "\<not> missing_transaction_fields p \<and> in_rowHash p = Some (sha256 (dataToHash p)) \<and>
    in_submitterId p \<noteq> None \<and>
    in_transactionId p \<in> Some ` set (map transaction_id (mempool_transactions s))"
  then have "js_str (in_transactionId p) \<in> set (map transaction_id (mempool_transactions s))"
    by (auto simp: js_str_def)
  with h show "receive_transaction e p s = (TxDuplicate, s)"
    by (auto simp: receive_transaction_def dataToHash_def Let_def createTransaction_received)
next
  assume h: "\<not> missing_transaction_fields p \<and> in_rowHash p = Some (sha256 (dataToHash p)) \<and>
    in_submitterId p \<noteq> None \<and>
    in_transactionId p \<notin> Some ` set (map transaction_id (mempool_transactions s))"
  then have pres: "\<not> falsy (in_transactionId p)" "\<not> falsy (in_timestamp p)"
    "\<not> falsy (in_rowHash p)" "\<not> falsy (in_rawDataJson p)" "in_projId p \<noteq> None"
    by (auto simp: missing_transaction_fields_def)
  then obtain i t hh raw pj where v: "in_transactionId p = Some i" "in_timestamp p = Some t"
    "in_rowHash p = Some hh" "in_rawDataJson p = Some raw" "in_projId p = Some pj"
    by (auto simp: falsy_def split: option.splits)
  from h v have fresh: "js_str (in_transactionId p) \<notin> set (map transaction_id (mempool_transactions s))"
    by (auto simp: js_str_def)
  from h obtain sub where sub: "in_submitterId p = Some sub"
    by auto
  let ?row = "\<lparr>transaction_id = js_str (in_transactionId p), col_projId = js_str (in_projId p),
                   col_timestamp = js_str (in_timestamp p), submitter_id = sub,
                   station_id = in_stationID p, so2 = in_SO2 p, no2 = in_NO2 p,
                   pm10 = in_PM10 p, pm2_5 = in_PM2_5 p,
                   raw_data_json = js_str (in_rawDataJson p), col_rowHash = js_str (in_rowHash p)\<rparr>"
  have "receive_transaction e p s =
          (TxAccepted p, s\<lparr>mempool_transactions := mempool_transactions s @ [?row]\<rparr>)"
    using h fresh sub
    by (simp add: receive_transaction_def dataToHash_def Let_def createTransaction_received)
  moreover have "Some (transaction_id ?row) = in_transactionId p \<and>
             Some (col_timestamp ?row) = in_timestamp p \<and>
             Some (raw_data_json ?row) = in_rawDataJson p \<and>
             Some (col_rowHash ?row) = in_rowHash p \<and>
             Some (col_projId ?row) = in_projId p"
    using v by (simp add: js_str_def)
  ultimately show "\<exists>row. receive_transaction e p s =
                (TxAccepted p, s\<lparr>mempool_transactions := mempool_transactions s @ [row]\<rparr>) \<and>
             Some (transaction_id row) = in_transactionId p \<and>
             Some (col_timestamp row) = in_timestamp p \<and>
             Some (raw_data_json row) = in_rawDataJson p \<and>
             Some (col_rowHash row) = in_rowHash p \<and>
             Some (col_projId row) = in_projId p"
    by blast
qed simp_all

theorem C8_remote_reception_witness:
  "receive_transaction sample_env
     ((sample_submission ''t2'' ''2025-01-01T00:00:02.000Z'')\<lparr>in_rowHash := None\<rparr>) replica_node =
     (TxMissingFields, replica_node) \<and>
   receive_transaction sample_env
     ((sample_submission ''t2'' ''2025-01-01T00:00:02.000Z'')\<lparr>in_rowHash := Some ''abc''\<rparr>) replica_node =
     (TxHashMismatch, replica_node) \<and>
   receive_transaction sample_env
     ((sample_submission ''t2'' ''2025-01-01T00:00:02.000Z'')\<lparr>in_submitterId := None\<rparr>) replica_node =
     (TxNotAccepted, replica_node) \<and>
   receive_transaction sample_env (sample_submission ''t1'' ''2025-01-01T00:00:01.000Z'') replica_node =
     (TxDuplicate, replica_node) \<and>
   fst (receive_transaction sample_env (sample_submission ''t2'' ''2025-01-01T00:00:02.000Z'') replica_node) =
     TxAccepted (sample_submission ''t2'' ''2025-01-01T00:00:02.000Z'') \<and>
   map transaction_id (mempool_transactions
     (snd (receive_transaction sample_env (sample_submission ''t2'' ''2025-01-01T00:00:02.000Z'') replica_node))) =
     [''t1'', ''t2'']"
proof -
  let ?p = "sample_submission ''t2'' ''2025-01-01T00:00:02.000Z''"
  let ?q = "sample_submission ''t1'' ''2025-01-01T00:00:01.000Z''"
  note defs = missing_transaction_fields_def falsy_def sample_submission_def sha256_not_Nil
    sha256_neq_short dataToHash_def js_str_def replica_node_def sample_row_def
  have 1: "receive_transaction sample_env (?p\<lparr>in_rowHash := None\<rparr>) replica_node =
     (TxMissingFields, replica_node)"
  proof -
    have "missing_transaction_fields (?p\<lparr>in_rowHash := None\<rparr>)"
      by (simp add: defs)
    with C8_remote_reception [where p = "?p\<lparr>in_rowHash := None\<rparr>", THEN conjunct1]
    show ?thesis by blast
  qed
  have 2: "receive_transaction sample_env (?p\<lparr>in_rowHash := Some ''abc''\<rparr>) replica_node =
     (TxHashMismatch, replica_node)"
  proof -
    have "\<not> missing_transaction_fields (?p\<lparr>in_rowHash := Some ''abc''\<rparr>) \<and>
          in_rowHash (?p\<lparr>in_rowHash := Some ''abc''\<rparr>) \<noteq>
            Some (sha256 (dataToHash (?p\<lparr>in_rowHash := Some ''abc''\<rparr>)))"
      by (simp add: defs)
    with C8_remote_reception [where p = "?p\<lparr>in_rowHash := Some ''abc''\<rparr>",
        THEN conjunct2, THEN conjunct1]
    show ?thesis by blast
  qed
  have 3: "receive_transaction sample_env (?p\<lparr>in_submitterId := None\<rparr>) replica_node =
     (TxNotAccepted, replica_node)"
  proof -
    have "\<not> missing_transaction_fields (?p\<lparr>in_submitterId := None\<rparr>) \<and>
          in_rowHash (?p\<lparr>in_submitterId := None\<rparr>) =
            Some (sha256 (dataToHash (?p\<lparr>in_submitterId := None\<rparr>))) \<and>
          in_submitterId (?p\<lparr>in_submitterId := None\<rparr>) = None"
      by (simp add: defs)
    with C8_remote_reception [where p = "?p\<lparr>in_submitterId := None\<rparr>",
        THEN conjunct2, THEN conjunct2, THEN conjunct1]
    show ?thesis by blast
  qed
  have 4: "receive_transaction sample_env ?q replica_node = (TxDuplicate, replica_node)"
  proof -
    have "\<not> missing_transaction_fields ?q \<and> in_rowHash ?q = Some (sha256 (dataToHash ?q)) \<and>
          in_submitterId ?q \<noteq> None \<and>
          in_transactionId ?q \<in> Some ` set (map transaction_id (mempool_transactions replica_node))"
      by (simp add: defs)
    with C8_remote_reception [where p = ?q and s = replica_node,
        THEN conjunct2, THEN conjunct2, THEN conjunct2, THEN conjunct1]
    show ?thesis by blast
  qed
  have 5: "fst (receive_transaction sample_env ?p replica_node) = TxAccepted ?p \<and>
     map transaction_id (mempool_transactions (snd (receive_transaction sample_env ?p replica_node))) =
       [''t1'', ''t2'']"
  proof -
    have "\<not> missing_transaction_fields ?p \<and> in_rowHash ?p = Some (sha256 (dataToHash ?p)) \<and>
          in_submitterId ?p \<noteq> None \<and>
          in_transactionId ?p \<notin> Some ` set (map transaction_id (mempool_transactions replica_node))"
      by (simp add: defs)
    with C8_remote_reception [where p = ?p and s = replica_node and e = sample_env,
        THEN conjunct2, THEN conjunct2, THEN conjunct2, THEN conjunct2, THEN conjunct1]
    obtain row where r: "receive_transaction sample_env ?p replica_node =
                (TxAccepted ?p, replica_node\<lparr>mempool_transactions := mempool_transactions replica_node @ [row]\<rparr>)"
      and i: "Some (transaction_id row) = in_transactionId ?p"
      by blast
    from i have "transaction_id row = ''t2''"
      by (simp add: sample_submission_def)
    with r show ?thesis
      by (simp add: replica_node_def sample_row_def)
  qed
  from 1 2 3 4 5 show ?thesis
    by blast
qed

text \<open>
  C9 (as stated): when a transaction or a block is broadcast, the failure of one peer
  does not roll back the local commit, does not crash the node and is not surfaced to the
  caller, and the operation still reports success. The last part fails: the requests
  are joined with \<open>Promise.all\<close> and none has a handler of its own, so one failed peer
  rejects the join and the \<open>catch\<close> block answers. Below one peer of two fails:
  \<open>POST /submit\<close> answers 500 although the transaction is in the mempool.
\<close>

theorem C9_peer_failure_fails_request_counterexample:
  "fst (submit_transaction sample_env [True, False]
          (sample_submission ''t2'' ''2025-01-01T00:00:02.000Z'') replica_node) =
     TxSubmitFailed RequestFailed \<and>
   tx_status (TxSubmitFailed RequestFailed) = 500 \<and>
   map transaction_id (mempool_transactions (snd (submit_transaction sample_env [True, False]
          (sample_submission ''t2'' ''2025-01-01T00:00:02.000Z'') replica_node))) = [''t1'', ''t2'']"
  by (simp add: admission_defs Let_def)

text \<open>
  C9 (amended): when the broadcast of a transaction or of a block fails at one peer or
  more, the local commit is neither prevented nor rolled back (the state is the one after
  the local insert, and for a block after the mempool pruning) and the node goes on, but
  the failure is surfaced to the caller: \<open>POST /submit\<close> answers 500 and
  \<open>mineBlockInternal\<close> rethrows the error instead of reporting success.
\<close>

theorem C9_peer_failure_keeps_commit_and_is_reported:
  "\<not> list_all (\<lambda>ok. ok) peers \<Longrightarrow>
     (createTransaction e p s = (Inr tx, s1) \<longrightarrow>
        submit_transaction e peers p s = (TxSubmitFailed RequestFailed, s1) \<and>
        tx_status (TxSubmitFailed RequestFailed) = 500) \<and>
     (int BLOCK_SIZE \<le> getMempoolCount s \<and>
      addBlockToBlockchain (newBlock e s) s = (Inr b, s2) \<longrightarrow>
        mineBlockInternal e peers s =
          (Inl RequestFailed,
           removeTransactionsFromMempool
             (map transactionId (getTransactionsForBlock BLOCK_SIZE s)) s2))"
  by (simp add: submit_transaction_def mineBlockInternal_def broadcast_def Let_def)

theorem C9_peer_failure_keeps_commit_and_is_reported_witness:
  "submit_transaction sample_env [True, False]
     (sample_submission ''t2'' ''2025-01-01T00:00:02.000Z'') replica_node =
     (TxSubmitFailed RequestFailed,
      snd (createTransaction sample_env (sample_submission ''t2'' ''2025-01-01T00:00:02.000Z'') replica_node)) \<and>
   map transaction_id (mempool_transactions
     (snd (createTransaction sample_env (sample_submission ''t2'' ''2025-01-01T00:00:02.000Z'') replica_node))) =
     [''t1'', ''t2''] \<and>
   fst (mineBlockInternal sample_env [True, False] authority_node) = Inl RequestFailed \<and>
   length (bchain (snd (mineBlockInternal sample_env [True, False] authority_node))) = 2"
proof -
  let ?p = "sample_submission ''t2'' ''2025-01-01T00:00:02.000Z''"
  let ?s1 = "snd (createTransaction sample_env ?p replica_node)"
  let ?s2 = "snd (addBlockToBlockchain (newBlock sample_env authority_node) authority_node)"
  have peers: "\<not> list_all (\<lambda>ok. ok) [True, False]"
    by simp
  have "\<exists>tx. fst (createTransaction sample_env ?p replica_node) = Inr tx"
    by (simp add: admission_defs Let_def)
  then obtain tx where created: "createTransaction sample_env ?p replica_node = (Inr tx, ?s1)"
    by (auto simp: prod_eq_iff)
  have stored: "map transaction_id (mempool_transactions ?s1) = [''t1'', ''t2'']"
    by (simp add: admission_defs Let_def)
  have enough: "int BLOCK_SIZE \<le> getMempoolCount authority_node"
    by (simp add: mine_defs)
  have added: "addBlockToBlockchain (newBlock sample_env authority_node) authority_node =
      (Inr (newBlock sample_env authority_node), ?s2)"
    using mined_ok by (simp add: prod_eq_iff)
  have submit: "submit_transaction sample_env [True, False] ?p replica_node =
      (TxSubmitFailed RequestFailed, ?s1)"
    using C9_peer_failure_keeps_commit_and_is_reported [OF peers, THEN conjunct1] created
    by blast
  have mine: "mineBlockInternal sample_env [True, False] authority_node =
      (Inl RequestFailed,
       removeTransactionsFromMempool
         (map transactionId (getTransactionsForBlock BLOCK_SIZE authority_node)) ?s2)"
    using C9_peer_failure_keeps_commit_and_is_reported [OF peers, THEN conjunct2] enough added
    by blast
  from addBlockToBlockchain_Inr [OF added] obtain row where
    "bchain ?s2 = bchain authority_node @ [row]"
    by blast
  then have "length (bchain ?s2) = 2"
    by (simp add: authority_node_def)
  with submit stored mine show ?thesis
    by simp
qed








text \<open>
  C7: a node with an empty chain that fetches the authority's chain at start-up applies
  the blocks in order through \<open>addBlockToBlockchain\<close>, prunes its mempool after each, and
  ends with exactly the fetched blocks. The code does not reach that end. The chain that
  \<open>GET /chain\<close> returns carries, for every transaction, only \<open>transactionId\<close> and
  \<open>rowHash\<close>; \<open>addBlockToBlockchain\<close> binds the missing \<open>projId\<close> as \<open>NULL\<close>, the
  insert into \<open>confirmed_transactions\<close> fails, the block is rolled back and the loop is
  left. Below the authority has mined one block of five transactions: the fetched chain
  has two blocks, the synchronized node keeps the genesis block only.
\<close>

theorem C7_sync_keeps_only_the_genesis_block:
  "map blockIndex (getAllBlocks (snd (mineBlockInternal sample_env [] authority_node))) =
     [Some 0, Some 1] \<and>
   fst (apply_chain (getAllBlocks (snd (mineBlockInternal sample_env [] authority_node)))
          (fresh_node (Some ''1''))) =
     Some (SQLITE_CONSTRAINT_NOTNULL ''confirmed_transactions.projId'') \<and>
   bchain (synchronize (Inr (Some (getAllBlocks (snd (mineBlockInternal sample_env [] authority_node)))))
             (fresh_node (Some ''1''))) =
     [genesisBlock ''2025-01-01T00:00:00.000Z'']"
proof -
  let ?nb = "newBlock sample_env authority_node"
  let ?g = "genesisBlock ''2025-01-01T00:00:00.000Z''"
  have enough: "int BLOCK_SIZE \<le> getMempoolCount authority_node"
    by (simp add: mine_defs)
  obtain s1 where added: "addBlockToBlockchain ?nb authority_node = (Inr ?nb, s1)"
    using mined_ok by (cases "addBlockToBlockchain ?nb authority_node") simp
  have "snd (mineBlockInternal sample_env [] authority_node) =
      removeTransactionsFromMempool
        (map transactionId (getTransactionsForBlock BLOCK_SIZE authority_node)) s1"
    using enough added by (simp add: mineBlockInternal_def Let_def broadcast_def)
  then have chain: "bchain (snd (mineBlockInternal sample_env [] authority_node)) = bchain s1"
    by simp
  have idx: "blockIndex ?nb = Some 1"
    by (simp add: newBlock_fields getLastBlock_def lastIndex_def authority_node_def genesisBlock_def)
  have "length (getTransactionsForBlock BLOCK_SIZE authority_node) = 5"
    by (simp add: getTransactionsForBlock_def BLOCK_SIZE_def authority_node_def)
  then obtain tx rest where sel: "getTransactionsForBlock BLOCK_SIZE authority_node = tx # rest"
    by (cases "getTransactionsForBlock BLOCK_SIZE authority_node") auto
  from addBlockToBlockchain_Inr [OF added] idx sel obtain t n h ph m where
    rows: "bchain s1 = bchain authority_node @
       [\<lparr>row_id = Suc (length (bchain authority_node)), row_blockIndex = 1, row_timestamp = t,
         row_transactions = map lightweight (tx # rest), row_nonce = n, row_hash = h,
         row_previousBlockHash = ph, row_merkleRoot = m\<rparr>]"
    by (auto simp: newBlock_fields)
  let ?row = "\<lparr>row_id = Suc (length (bchain authority_node)), row_blockIndex = 1, row_timestamp = t,
         row_transactions = map lightweight (tx # rest), row_nonce = n, row_hash = h,
         row_previousBlockHash = ph, row_merkleRoot = m\<rparr>"
  have "bchain s1 = [?g, ?row]"
    using rows by (simp add: authority_node_def)
  with chain have stored: "bchain (snd (mineBlockInternal sample_env [] authority_node)) = [?g, ?row]"
    by simp
  have fetched: "getAllBlocks (snd (mineBlockInternal sample_env [] authority_node)) =
      [block_of_row ?g, block_of_row ?row]"
    unfolding getAllBlocks_def stored by (simp add: genesisBlock_def)
  have indices: "map blockIndex [block_of_row ?g, block_of_row ?row] = [Some 0, Some 1]"
    by (simp add: block_of_row_def genesisBlock_def)
  let ?sg = "(fresh_node (Some ''1''))\<lparr>bchain := [?g]\<rparr>"
  have first: "addBlockToBlockchain (block_of_row ?g) (fresh_node (Some ''1'')) =
      (Inr (block_of_row ?g), ?sg)"
    by (simp add: store_defs block_of_row_def genesisBlock_def fresh_node_def)
  have prune: "removeTransactionsFromMempool (map transactionId []) ?sg = ?sg"
    by (simp add: removeTransactionsFromMempool_def fresh_node_def)
  have second: "addBlockToBlockchain (block_of_row ?row) ?sg =
      (Inl (SQLITE_CONSTRAINT_NOTNULL ''confirmed_transactions.projId''), ?sg)"
    by (simp add: addBlockToBlockchain_def insert_bchain_def block_of_row_def genesisBlock_def
        fresh_node_def insert_confirmed_lightweight Let_def)
  have applied: "apply_chain [block_of_row ?g, block_of_row ?row] (fresh_node (Some ''1'')) =
      (Some (SQLITE_CONSTRAINT_NOTNULL ''confirmed_transactions.projId''), ?sg)"
    using first prune second by (simp add: block_of_row_def genesisBlock_def)
  have "synchronize (Inr (Some [block_of_row ?g, block_of_row ?row])) (fresh_node (Some ''1'')) = ?sg"
    using applied by (simp add: synchronize_def getLastBlock_def fresh_node_def js_str_def)
  with fetched indices applied show ?thesis
    by simp
qed

end
